theory Spec2Isabelle
  imports Complex_Main "HOL-Library.Word"
begin

section \<open>Numbers of the source\<close>

text \<open>
  The planner \<^verbatim>\<open>convexSPPExplorator::getExplorationPath\<close> computes with \<^verbatim>\<open>float\<close>
  and \<^verbatim>\<open>double\<close>. Finite values are modelled by \<^typ>\<open>real\<close> (rounding is not modelled);
  the values that a division can produce beyond the finite ones are kept apart, because the
  comparisons of the source treat them differently: every ordered comparison with a NaN is
  false. The sign of a zero is not modelled (a zero denominator counts as \<open>+0\<close>).
\<close>

type_synonym uchar = "8 word"

datatype fval = Fin real | PInf | NInf | NaN

fun fdiv :: "fval \<Rightarrow> fval \<Rightarrow> fval" where
  "fdiv NaN _ = NaN"
| "fdiv _ NaN = NaN"
| "fdiv (Fin a) (Fin b) =
     (if b \<noteq> 0 then Fin (a / b)
      else if a = 0 then NaN else if 0 < a then PInf else NInf)"
| "fdiv (Fin a) PInf = Fin 0"
| "fdiv (Fin a) NInf = Fin 0"
| "fdiv PInf (Fin b) = (if 0 \<le> b then PInf else NInf)"
| "fdiv NInf (Fin b) = (if 0 \<le> b then NInf else PInf)"
| "fdiv PInf PInf = NaN"
| "fdiv PInf NInf = NaN"
| "fdiv NInf PInf = NaN"
| "fdiv NInf NInf = NaN"

fun fadd :: "fval \<Rightarrow> fval \<Rightarrow> fval" where
  "fadd NaN _ = NaN"
| "fadd _ NaN = NaN"
| "fadd (Fin a) (Fin b) = Fin (a + b)"
| "fadd (Fin a) PInf = PInf"
| "fadd (Fin a) NInf = NInf"
| "fadd PInf (Fin b) = PInf"
| "fadd NInf (Fin b) = NInf"
| "fadd PInf PInf = PInf"
| "fadd NInf NInf = NInf"
| "fadd PInf NInf = NaN"
| "fadd NInf PInf = NaN"

text \<open>\<^verbatim>\<open>a <= b\<close>, \<^verbatim>\<open>a < b\<close> and \<^verbatim>\<open>a == b\<close> on floating-point values.\<close>

fun fle :: "fval \<Rightarrow> fval \<Rightarrow> bool" where
  "fle NaN _ = False"
| "fle _ NaN = False"
| "fle (Fin a) (Fin b) = (a \<le> b)"
| "fle NInf _ = True"
| "fle _ PInf = True"
| "fle PInf _ = False"
| "fle _ NInf = False"

fun flt :: "fval \<Rightarrow> fval \<Rightarrow> bool" where
  "flt NaN _ = False"
| "flt _ NaN = False"
| "flt (Fin a) (Fin b) = (a < b)"
| "flt PInf _ = False"
| "flt _ NInf = False"
| "flt NInf _ = True"
| "flt _ PInf = True"

fun feq :: "fval \<Rightarrow> fval \<Rightarrow> bool" where
  "feq (Fin a) (Fin b) = (a = b)"
| "feq PInf PInf = True"
| "feq NInf NInf = True"
| "feq _ _ = False"

text \<open>\<^verbatim>\<open>std::acos\<close>: a NaN outside \<open>[-1, 1]\<close> and on a NaN.\<close>

fun facos :: "fval \<Rightarrow> fval" where
  "facos (Fin a) = (if - 1 \<le> a \<and> a \<le> 1 then Fin (arccos a) else NaN)"
| "facos _ = NaN"

text \<open>
  The conversion of a floating-point value to \<^verbatim>\<open>int\<close> truncates towards zero. On a value
  that is not finite the conversion is undefined in C++; the model returns the value that
  the x86 conversion instruction gives.
\<close>

definition trunc :: "real \<Rightarrow> int" where
  "trunc r = (if 0 \<le> r then \<lfloor>r\<rfloor> else \<lceil>r\<rceil>)"

fun to_int :: "fval \<Rightarrow> int" where
  "to_int (Fin r) = trunc r"
| "to_int _ = - (2 ^ 31)"

section \<open>Matrices\<close>

text \<open>
  A \<^verbatim>\<open>cv::Mat\<close> of type \<^verbatim>\<open>CV_8U\<close>: its shape and its entries. \<^verbatim>\<open>cv::Mat(rows, cols, CV_8U)\<close>
  allocates without initialising, so an entry is \<open>None\<close> until it is written.
\<close>

record Mat =
  rows :: nat
  cols :: nat
  data :: "nat \<Rightarrow> nat \<Rightarrow> uchar option"

definition Mat_new :: "nat \<Rightarrow> nat \<Rightarrow> Mat" where
  "Mat_new r c = \<lparr>rows = r, cols = c, data = (\<lambda>i j. None)\<rparr>"

text \<open>\<^verbatim>\<open>M.at<uchar>(i, j) = v\<close>\<close>

definition Mat_set :: "Mat \<Rightarrow> nat \<Rightarrow> nat \<Rightarrow> uchar \<Rightarrow> Mat" where
  "Mat_set M i j v = M\<lparr>data := (data M)(i := (data M i)(j := Some v))\<rparr>"

text \<open>
  \<^verbatim>\<open>M.col(j)\<close>, \<^verbatim>\<open>cv::hconcat(A, B, dst)\<close> and \<^verbatim>\<open>M.colRange(a, b)\<close> are OpenCV's. They are
  modelled by their documented effect on the shape and on the entries: a header for one
  column, the columns of \<open>A\<close> followed by those of \<open>B\<close>, a header for the columns from \<open>a\<close> to
  \<open>b - 1\<close>.
\<close>

definition Mat_col :: "Mat \<Rightarrow> nat \<Rightarrow> Mat" where
  "Mat_col M j = \<lparr>rows = rows M, cols = 1, data = (\<lambda>i k. data M i j)\<rparr>"

definition hconcat :: "Mat \<Rightarrow> Mat \<Rightarrow> Mat" where
  "hconcat A B =
     \<lparr>rows = rows A, cols = cols A + cols B,
      data = (\<lambda>i k. if k < cols A then data A i k else data B i (k - cols A))\<rparr>"

definition colRange :: "Mat \<Rightarrow> nat \<Rightarrow> nat \<Rightarrow> Mat" where
  "colRange M a b = \<lparr>rows = rows M, cols = b - a, data = (\<lambda>i k. data M i (k + a))\<rparr>"

section \<open>The solver adapter\<close>

text \<open>
  The linear program handed to QSopt: one column per variable, added by
  \<^verbatim>\<open>QSnew_col(problem, cost, 0.0, 1.0, NULL)\<close>, one row per cell, added by
  \<^verbatim>\<open>QSadd_row(problem, n, indices, coefficients, 1.0, 'G', NULL)\<close>, and the variables that the
  rewritten problem file declares in its \<^verbatim>\<open>Integer\<close> section (\<open>x1\<close>, \<open>x2\<close>, ...).
\<close>

type_synonym column = "fval \<times> real \<times> real"
type_synonym row = "nat list \<times> real list \<times> real \<times> char"

record QSprob =
  columns :: "column list"
  constraints :: "row list"
  integers :: "nat list"

text \<open>
  QSopt is outside the repository. It is a parameter of the model: \<open>QSopt k p\<close> is the array
  that \<^verbatim>\<open>QSget_solution\<close> fills after the \<open>k\<close>-th solve, on the problem \<open>p\<close>. Nothing is
  assumed of it.
\<close>

type_synonym solver = "nat \<Rightarrow> QSprob \<Rightarrow> nat \<Rightarrow> fval"

definition build_problem :: "nat \<Rightarrow> Mat \<Rightarrow> fval list option \<Rightarrow> QSprob" where
  "build_problem n V W =
     \<lparr>columns = map (\<lambda>variable. (case W of Some w \<Rightarrow> w ! variable | None \<Rightarrow> Fin 1, 0, 1)) [0..<n],
      constraints = map (\<lambda>row.
          let variable_indices = filter (\<lambda>col. data V row col = Some 1) [0..<cols V]
          in (variable_indices, replicate (length variable_indices) 1, 1, CHR ''G''))
        [0..<rows V],
      integers = (if W = None then [1..<n + 1] else [])\<rparr>"

text \<open>
  \<^verbatim>\<open>solveOptimizationProblem<T>(C, V, W)\<close>: the new content of \<open>C\<close>. \<open>conv\<close> is the
  conversion from \<^verbatim>\<open>double\<close> to \<open>T\<close> of the assignment \<^verbatim>\<open>C[variable] = result[variable]\<close>.
\<close>

definition solveOptimizationProblem ::
  "(fval \<Rightarrow> 'a) \<Rightarrow> solver \<Rightarrow> nat \<Rightarrow> 'a list \<Rightarrow> Mat \<Rightarrow> fval list option \<Rightarrow> 'a list" where
  "solveOptimizationProblem conv QSopt k C V W =
     (let problem = build_problem (length C) V W;
          result = QSopt k problem;
          ncols = length (columns problem)
      in map (\<lambda>variable. conv (result variable)) [0..<ncols])"

section \<open>The reweighting loop\<close>

text \<open>
  The locals of the loop. The counters are \<^verbatim>\<open>uint\<close> in the source and natural numbers here:
  the iteration counter ends at 201 at most, and a sparsity measure is at most the number of
  candidates, which the source holds in an \<^verbatim>\<open>int\<close>.
\<close>

record loop_state =
  vec_C :: "fval list"
  vec_W :: "fval list"
  sparsity_converged :: bool
  weight_epsilon :: real
  number_of_iterations :: nat
  sparsity_measures :: "nat list"

definition euler_constant :: real where
  "euler_constant = exp 1"

text \<open>
  \<^verbatim>\<open>int exponent = 1 + (number_of_iterations - 1)*0.1;\<close>: the product and the sum are
  \<^verbatim>\<open>double\<close>, the initialisation of the \<^verbatim>\<open>int\<close> truncates. The counter is at least 1 when
  the statement runs. (The \<^verbatim>\<open>double\<close> nearest to 0.1 lies above it and every integer in reach
  is a \<^verbatim>\<open>double\<close>, so the rounded product truncates to the same integer as the exact one.)
\<close>

definition exponent :: "nat \<Rightarrow> int" where
  "exponent n = trunc (1 + real (n - 1) * 0.1)"

definition update_epsilon :: "nat \<Rightarrow> real" where
  "update_epsilon n = (1 / (euler_constant - 1)) powr (of_int (exponent n))"

text \<open>The \<open>l^0_eps\<close> measure of the source: \<open>|{i: c[i] <= 0.01}|\<close>.\<close>

definition sparsity_measure :: "fval list \<Rightarrow> nat" where
  "sparsity_measure C = length (filter (\<lambda>c. fle c (Fin 0.01)) C)"

text \<open>
  The terminal condition. The reverse iterator runs from \<^verbatim>\<open>rbegin()\<close> to
  \<^verbatim>\<open>rbegin() + sparsity_check_range\<close> or \<^verbatim>\<open>rend()\<close>, counting the measures equal to
  \<^verbatim>\<open>sparsity_measures.back()\<close>.
\<close>

definition number_of_last_measure :: "nat list \<Rightarrow> nat \<Rightarrow> nat" where
  "number_of_last_measure ms sparsity_check_range =
     length (filter (\<lambda>measure. measure = last ms)
       (take sparsity_check_range (rev ms)))"

definition check_terminal_condition :: "nat list \<Rightarrow> nat \<Rightarrow> bool \<Rightarrow> bool" where
  "check_terminal_condition ms sparsity_check_range converged =
     (if sparsity_check_range \<le> length ms
      then (if number_of_last_measure ms sparsity_check_range = sparsity_check_range
            then True else converged)
      else converged)"

definition loop_body :: "solver \<Rightarrow> Mat \<Rightarrow> nat \<Rightarrow> loop_state \<Rightarrow> loop_state" where
  "loop_body QSopt V sparsity_check_range s =
     (let n = number_of_iterations s + 1;
          C = solveOptimizationProblem id QSopt n (vec_C s) V (Some (vec_W s));
          eps = update_epsilon n;
          W = map (\<lambda>weight. fdiv (Fin eps) (fadd (Fin eps) (C ! weight))) [0..<length (vec_W s)];
          ms = sparsity_measures s @ [sparsity_measure C]
      in \<lparr>vec_C = C, vec_W = W,
          sparsity_converged =
            check_terminal_condition ms sparsity_check_range (sparsity_converged s),
          weight_epsilon = eps, number_of_iterations = n, sparsity_measures = ms\<rparr>)"

text \<open>
  \<^verbatim>\<open>do { ... } while(sparsity_converged == false && number_of_iterations <= 200);\<close>
  Every pass increments \<^verbatim>\<open>number_of_iterations\<close>, so the loop ends.
\<close>

function relaxation_loop :: "solver \<Rightarrow> Mat \<Rightarrow> nat \<Rightarrow> loop_state \<Rightarrow> loop_state" where
  "relaxation_loop QSopt V sparsity_check_range s =
     (let s' = loop_body QSopt V sparsity_check_range s
      in if sparsity_converged s' = False \<and> number_of_iterations s' \<le> 200
         then relaxation_loop QSopt V sparsity_check_range s' else s')"
  by pat_completeness auto
termination
  by (relation "measure (\<lambda>(QSopt, V, r, s). 201 - number_of_iterations s)")
    (auto simp: loop_body_def Let_def)

declare relaxation_loop.simps [simp del]

text \<open>The locals of the loop as \<^verbatim>\<open>getExplorationPath\<close> initialises them, for \<open>n\<close> candidate poses.\<close>

definition init_state :: "nat \<Rightarrow> loop_state" where
  "init_state n =
     \<lparr>vec_C = replicate n (Fin 0), vec_W = replicate n (Fin 1), sparsity_converged = False,
      weight_epsilon = 0, number_of_iterations = 0, sparsity_measures = []\<rparr>"

text \<open>
  The terminal condition in the words of the specification: at least \<open>r\<close> measurements exist
  and the last \<open>r\<close> of them are all equal to the most recent one.
\<close>

definition plateau :: "nat list \<Rightarrow> nat \<Rightarrow> bool" where
  "plateau ms r \<longleftrightarrow> r \<le> length ms \<and> (\<forall>i<r. ms ! (length ms - 1 - i) = last ms)"

section \<open>The problem reduction\<close>

text \<open>
  The loop over \<open>C\<close> with the iterator \<^verbatim>\<open>result\<close>; \<open>idx\<close> is \<^verbatim>\<open>result - C.begin()\<close>. The state is
  \<^verbatim>\<open>new_number_of_variables\<close> and \<^verbatim>\<open>V_reduced\<close>.
\<close>

definition reduce_step :: "fval list \<Rightarrow> Mat \<Rightarrow> nat \<Rightarrow> nat \<times> Mat \<Rightarrow> nat \<times> Mat" where
  "reduce_step C V idx st =
     (if feq (C ! idx) (Fin 0)
      then (fst st + 1, hconcat (snd st) (Mat_col V idx))
      else st)"

definition reduce_problem :: "fval list \<Rightarrow> Mat \<Rightarrow> nat \<Rightarrow> nat \<times> Mat" where
  "reduce_problem C V number_of_cells =
     (let st = fold (reduce_step C V) [0..<length C] (0, Mat_new number_of_cells 1);
          V_reduced = snd st
      in (fst st, colRange V_reduced 1 (cols V_reduced)))"

section \<open>The visibility matrix\<close>

type_synonym Point = "int \<times> int"
type_synonym Point32 = "real \<times> real"

record Pose2D =
  pose_x :: real
  pose_y :: real
  pose_theta :: real

definition norm2 :: "real \<times> real \<Rightarrow> real" where
  "norm2 v = sqrt (fst v * fst v + snd v * snd v)"

text \<open>\<open>R * v\<close> for the rotation matrix \<open>R\<close> of the pose.\<close>

definition rotate :: "real \<Rightarrow> real \<times> real \<Rightarrow> real \<times> real" where
  "rotate th v =
     (let sin_theta = sin th; cos_theta = cos th
      in (cos_theta * fst v - sin_theta * snd v, sin_theta * fst v + cos_theta * snd v))"

definition transform_fow_point ::
  "Mat \<Rightarrow> real \<Rightarrow> real \<times> real \<Rightarrow> Pose2D \<Rightarrow> Point32 \<Rightarrow> Point" where
  "transform_fow_point room_map map_resolution map_origin pose fow_point =
     (let pose_as_matrix = (pose_x pose * map_resolution + fst map_origin,
                            pose_y pose * map_resolution + snd map_origin);
          rotated = rotate (pose_theta pose) fow_point;
          transformed_vector = (fst pose_as_matrix + fst rotated, snd pose_as_matrix + snd rotated);
          current_x = to_int (fdiv (Fin (fst transformed_vector - fst map_origin)) (Fin map_resolution));
          current_y = to_int (fdiv (Fin (snd transformed_vector - snd map_origin)) (Fin map_resolution))
      in (min (max current_x 0) (int (cols room_map)), min (max current_y 0) (int (rows room_map))))"

text \<open>The two gates of the test, as the source writes them.\<close>

definition distance_gate :: "real \<Rightarrow> real \<Rightarrow> real \<Rightarrow> real \<Rightarrow> bool" where
  "distance_gate distance smallest_robot_to_fow_distance largest_robot_to_fow_distance map_resolution =
     (fle (fdiv (Fin smallest_robot_to_fow_distance) (Fin map_resolution)) (Fin distance) \<and>
      fle (Fin distance) (fdiv (Fin largest_robot_to_fow_distance) (Fin map_resolution)))"

definition angle_gate :: "fval \<Rightarrow> real \<Rightarrow> bool" where
  "angle_gate angle max_fow_angle = fle angle (Fin max_fow_angle)"

text \<open>The angle between the rotated robot-to-fow vector and the robot-to-neighbor vector.\<close>

definition compute_quotient :: "real \<times> real \<Rightarrow> real \<times> real \<Rightarrow> fval" where
  "compute_quotient transformed_robot_to_middlepoint_vector pose_to_neighbor =
     (let dot = fst transformed_robot_to_middlepoint_vector * fst pose_to_neighbor
              + snd transformed_robot_to_middlepoint_vector * snd pose_to_neighbor;
          abs = norm2 transformed_robot_to_middlepoint_vector * norm2 pose_to_neighbor
      in fdiv (Fin dot) (Fin abs))"

definition clamp_quotient :: "fval \<Rightarrow> fval" where
  "clamp_quotient q =
     (if flt (Fin 1) q then Fin 1
      else if flt q (Fin (- 1)) then Fin (- 1)
      else q)"

definition angle_of :: "real \<times> real \<Rightarrow> real \<times> real \<Rightarrow> fval" where
  "angle_of transformed_robot_to_middlepoint_vector pose_to_neighbor =
     facos (clamp_quotient (compute_quotient transformed_robot_to_middlepoint_vector pose_to_neighbor))"

text \<open>
  \<^verbatim>\<open>cv::pointPolygonTest\<close> and \<^verbatim>\<open>cv::LineIterator\<close> are OpenCV's: parameters of the model.
  \<open>LineIterator room_map p q\<close> is the list of the \<^verbatim>\<open>count\<close> positions the iterator visits.
\<close>

type_synonym polygon_test = "Point list \<Rightarrow> Point \<Rightarrow> real"
type_synonym line_iterator = "Mat \<Rightarrow> Point \<Rightarrow> Point \<Rightarrow> Point list"

definition hit_obstacle :: "line_iterator \<Rightarrow> Mat \<Rightarrow> Pose2D \<Rightarrow> Point \<Rightarrow> bool" where
  "hit_obstacle LineIterator room_map pose neighbor =
     (\<exists>pos \<in> set (LineIterator room_map (trunc (pose_x pose), trunc (pose_y pose)) neighbor).
        data room_map (nat (snd pos)) (nat (fst pos)) = Some 0)"

text \<open>The body of the loop over the cells: \<open>i\<close> is \<^verbatim>\<open>neighbor - cell_centers.begin()\<close>, \<open>j\<close> is
  \<^verbatim>\<open>pose - candidate_sensing_poses.begin()\<close>.\<close>

definition check_neighbor ::
  "polygon_test \<Rightarrow> line_iterator \<Rightarrow> Mat \<Rightarrow> real \<Rightarrow> real \<Rightarrow> real \<Rightarrow> real \<Rightarrow>
   Point list \<Rightarrow> real \<times> real \<Rightarrow> Pose2D \<Rightarrow> nat \<Rightarrow> Point \<Rightarrow> nat \<Rightarrow> Mat \<Rightarrow> Mat" where
  "check_neighbor pointPolygonTest LineIterator room_map map_resolution max_fow_angle
     smallest_robot_to_fow_distance largest_robot_to_fow_distance
     transformed_fow_points transformed_robot_to_middlepoint_vector pose j neighbor i V =
     (let pose_to_neighbor = (real_of_int (fst neighbor) - pose_x pose,
                              real_of_int (snd neighbor) - pose_y pose);
          distance = norm2 pose_to_neighbor
      in if distance_gate distance smallest_robot_to_fow_distance largest_robot_to_fow_distance
              map_resolution
         then
           (let angle = angle_of transformed_robot_to_middlepoint_vector pose_to_neighbor
            in if angle_gate angle max_fow_angle
               then
                 (if 0 \<le> pointPolygonTest transformed_fow_points neighbor
                  then
                    (if hit_obstacle LineIterator room_map pose neighbor = False
                     then Mat_set V i j 1
                     else Mat_set V i j 0)
                  else Mat_set V i j 0)
               else Mat_set V i j 0)
         else Mat_set V i j 0)"

text \<open>The body of the loop over the candidate poses, and the two loops.\<close>

definition check_pose ::
  "polygon_test \<Rightarrow> line_iterator \<Rightarrow> Mat \<Rightarrow> real \<Rightarrow> real \<times> real \<Rightarrow> Point32 list \<Rightarrow>
   real \<times> real \<Rightarrow> real \<Rightarrow> real \<Rightarrow> real \<Rightarrow> Point list \<Rightarrow> Pose2D \<Rightarrow> nat \<Rightarrow> Mat \<Rightarrow> Mat" where
  "check_pose pointPolygonTest LineIterator room_map map_resolution map_origin footprint
     robot_to_fow_middlepoint_vector max_fow_angle smallest_robot_to_fow_distance
     largest_robot_to_fow_distance cell_centers pose j V =
     (let transformed_fow_points =
            map (transform_fow_point room_map map_resolution map_origin pose) footprint;
          transformed_robot_to_middlepoint_vector =
            rotate (pose_theta pose) robot_to_fow_middlepoint_vector
      in fold (\<lambda>i. check_neighbor pointPolygonTest LineIterator room_map map_resolution
                   max_fow_angle smallest_robot_to_fow_distance largest_robot_to_fow_distance
                   transformed_fow_points transformed_robot_to_middlepoint_vector pose j
                   (cell_centers ! i) i)
           [0..<length cell_centers] V)"

definition construct_V ::
  "polygon_test \<Rightarrow> line_iterator \<Rightarrow> Mat \<Rightarrow> real \<Rightarrow> real \<times> real \<Rightarrow> Point32 list \<Rightarrow>
   real \<times> real \<Rightarrow> real \<Rightarrow> real \<Rightarrow> real \<Rightarrow> Point list \<Rightarrow> Pose2D list \<Rightarrow> Mat" where
  "construct_V pointPolygonTest LineIterator room_map map_resolution map_origin footprint
     robot_to_fow_middlepoint_vector max_fow_angle smallest_robot_to_fow_distance
     largest_robot_to_fow_distance cell_centers candidate_sensing_poses =
     fold (\<lambda>j. check_pose pointPolygonTest LineIterator room_map map_resolution map_origin
                footprint robot_to_fow_middlepoint_vector max_fow_angle
                smallest_robot_to_fow_distance largest_robot_to_fow_distance cell_centers
                (candidate_sensing_poses ! j) j)
       [0..<length candidate_sensing_poses]
       (Mat_new (length cell_centers) (length candidate_sensing_poses))"

section \<open>The discretisation\<close>

text \<open>
  The loop variables \<open>x\<close> and \<open>y\<close> are \<^verbatim>\<open>size_t\<close>: the increment by \<^verbatim>\<open>cell_size\<close> wraps at
  \<open>2 ^ 64\<close>, and an \<^verbatim>\<open>int\<close> \<^verbatim>\<open>cell_size\<close> is converted to \<^verbatim>\<open>size_t\<close> first. The loops need not
  terminate (a \<^verbatim>\<open>cell_size\<close> of 0), so they are partial functions: \<open>None\<close> is a run that does
  not return. The initial value is a \<^verbatim>\<open>double\<close> converted to \<^verbatim>\<open>size_t\<close>, which C++ defines for
  values in range only (the model gives 0 on a negative one).
\<close>

definition to_size_t :: "real \<Rightarrow> nat" where
  "to_size_t r = nat \<lfloor>r\<rfloor>"

definition size_t_step :: "int \<Rightarrow> nat" where
  "size_t_step cell_size = nat (cell_size mod 2 ^ 64)"

partial_function (option) cells_x ::
  "Mat \<Rightarrow> real \<Rightarrow> nat \<Rightarrow> nat \<Rightarrow> nat \<Rightarrow> Point list \<Rightarrow> Point list option" where
  "cells_x room_map max_x step y x cell_centers =
     (if real x \<le> max_x
      then cells_x room_map max_x step y ((x + step) mod 2 ^ 64)
             (if data room_map y x = Some 255 then cell_centers @ [(int x, int y)]
              else cell_centers)
      else Some cell_centers)"

partial_function (option) cells_y ::
  "Mat \<Rightarrow> nat \<Rightarrow> real \<Rightarrow> real \<Rightarrow> nat \<Rightarrow> nat \<Rightarrow> Point list \<Rightarrow> Point list option" where
  "cells_y room_map x0 max_x max_y step y cell_centers =
     (if real y \<le> max_y
      then Option.bind (cells_x room_map max_x step y x0 cell_centers)
             (\<lambda>cs. cells_y room_map x0 max_x max_y step ((y + step) mod 2 ^ 64) cs)
      else Some cell_centers)"

definition get_cells :: "Mat \<Rightarrow> int \<Rightarrow> Point32 list \<Rightarrow> Point list option" where
  "get_cells room_map cell_size room_min_max_coordinates =
     cells_y room_map
       (to_size_t (fst (room_min_max_coordinates ! 0) + 0.5 * real_of_int cell_size))
       (fst (room_min_max_coordinates ! 1)) (snd (room_min_max_coordinates ! 1))
       (size_t_step cell_size)
       (to_size_t (snd (room_min_max_coordinates ! 0) + 0.5 * real_of_int cell_size))
       []"

text \<open>
  The candidate poses: \<^verbatim>\<open>for(double angle=0; angle<2.0*PI; angle+=delta_theta)\<close> for every cell
  center. \<^verbatim>\<open>PI\<close> is a macro of a header that is not part of the sources: a parameter.
\<close>

partial_function (option) poses_of_center ::
  "real \<Rightarrow> real \<Rightarrow> Point \<Rightarrow> real \<Rightarrow> Pose2D list \<Rightarrow> Pose2D list option" where
  "poses_of_center PI delta_theta center angle candidate_sensing_poses =
     (if angle < 2 * PI
      then poses_of_center PI delta_theta center (angle + delta_theta)
             (candidate_sensing_poses @
                [\<lparr>pose_x = real_of_int (fst center), pose_y = real_of_int (snd center),
                  pose_theta = angle\<rparr>])
      else Some candidate_sensing_poses)"

fun get_poses :: "real \<Rightarrow> real \<Rightarrow> Point list \<Rightarrow> Pose2D list \<Rightarrow> Pose2D list option" where
  "get_poses PI delta_theta [] candidate_sensing_poses = Some candidate_sensing_poses"
| "get_poses PI delta_theta (center # centers) candidate_sensing_poses =
     Option.bind (poses_of_center PI delta_theta center 0 candidate_sensing_poses)
       (get_poses PI delta_theta centers)"

section \<open>getExplorationPath\<close>

text \<open>
  What a run leaves behind: the output parameter \<^verbatim>\<open>path\<close>, and the locals of the function at
  its end, which the properties below speak about.
\<close>

record planner_out =
  path :: "Pose2D list"
  cell_centers :: "Point list"
  candidate_sensing_poses :: "Pose2D list"
  V_matrix :: Mat
  relaxation :: loop_state
  new_number_of_variables :: nat
  V_reduced :: Mat
  C_reduced :: "int list"

text \<open>
  The source function returns \<^verbatim>\<open>void\<close> and contains no \<^verbatim>\<open>throw\<close>. The failures below are the
  ones the specification names; the type of the result has room for them, so that it can be
  said whether a run ends in one.
\<close>

datatype planning_error = EmptyRegionError | InfeasibleCoverageError "nat list" | SolveFailure

text \<open>Parts II and III of the function, from the cells and the candidate poses on.\<close>

definition plan ::
  "solver \<Rightarrow> polygon_test \<Rightarrow> line_iterator \<Rightarrow> Mat \<Rightarrow> Pose2D list \<Rightarrow> real \<Rightarrow> real \<times> real \<Rightarrow>
   Point32 list \<Rightarrow> real \<times> real \<Rightarrow> real \<Rightarrow> real \<Rightarrow> real \<Rightarrow> nat \<Rightarrow>
   Point list \<Rightarrow> Pose2D list \<Rightarrow> planner_out" where
  "plan QSopt pointPolygonTest LineIterator room_map path_arg map_resolution map_origin footprint
     robot_to_fow_middlepoint_vector max_fow_angle smallest_robot_to_fow_distance
     largest_robot_to_fow_distance sparsity_check_range centers poses =
     (let number_of_candidates = length poses;
          V0 = construct_V pointPolygonTest LineIterator room_map map_resolution map_origin
                 footprint robot_to_fow_middlepoint_vector max_fow_angle
                 smallest_robot_to_fow_distance largest_robot_to_fow_distance centers poses;
          s = relaxation_loop QSopt V0 sparsity_check_range (init_state number_of_candidates);
          reduced = reduce_problem (vec_C s) V0 (length centers);
          final = solveOptimizationProblem to_int QSopt (number_of_iterations s + 1)
                    (replicate (fst reduced) 0) (snd reduced) None
      in \<lparr>path = path_arg, cell_centers = centers, candidate_sensing_poses = poses, V_matrix = V0,
          relaxation = s, new_number_of_variables = fst reduced, V_reduced = snd reduced,
          C_reduced = final\<rparr>)"

definition getExplorationPath ::
  "real \<Rightarrow> solver \<Rightarrow> polygon_test \<Rightarrow> line_iterator \<Rightarrow>
   Mat \<Rightarrow> Pose2D list \<Rightarrow> real \<Rightarrow> Point \<Rightarrow> real \<times> real \<Rightarrow> int \<Rightarrow> real \<Rightarrow> Point32 list \<Rightarrow>
   Point32 list \<Rightarrow> real \<times> real \<Rightarrow> real \<Rightarrow> real \<Rightarrow> real \<Rightarrow> nat \<Rightarrow>
   (planning_error + planner_out) option" where
  "getExplorationPath PI QSopt pointPolygonTest LineIterator
     room_map path_arg map_resolution starting_position map_origin cell_size delta_theta
     room_min_max_coordinates footprint robot_to_fow_middlepoint_vector max_fow_angle
     smallest_robot_to_fow_distance largest_robot_to_fow_distance sparsity_check_range =
     Option.bind (get_cells room_map cell_size room_min_max_coordinates) (\<lambda>centers.
     Option.bind (get_poses PI delta_theta centers []) (\<lambda>poses.
       Some (Inr (plan QSopt pointPolygonTest LineIterator room_map path_arg map_resolution
                    map_origin footprint robot_to_fow_middlepoint_vector max_fow_angle
                    smallest_robot_to_fow_distance largest_robot_to_fow_distance
                    sparsity_check_range centers poses))))"

section \<open>Example inputs\<close>

text \<open>
  A solver that answers a relaxed problem with the vertex \<open>(1, 0, 1, 0, ...)\<close> and an integer
  problem with all ones; maps of one row with two free pixels, with one free pixel and with
  one occupied pixel; a polygon test that finds every point inside and a line iterator that
  visits the two end points.
\<close>

definition example_solver :: solver where
  "example_solver k p v =
     (if integers p = [] then (if even v then Fin 1 else Fin 0) else Fin 1)"

definition example_room :: Mat where
  "example_room = \<lparr>rows = 1, cols = 2, data = (\<lambda>i j. if i < 1 \<and> j < 2 then Some 255 else None)\<rparr>"

definition single_room :: Mat where
  "single_room = \<lparr>rows = 1, cols = 1, data = (\<lambda>i j. if i < 1 \<and> j < 1 then Some 255 else None)\<rparr>"

definition blocked_room :: Mat where
  "blocked_room = \<lparr>rows = 1, cols = 1, data = (\<lambda>i j. if i < 1 \<and> j < 1 then Some 0 else None)\<rparr>"

definition example_poses :: "Pose2D list" where
  "example_poses =
     [\<lparr>pose_x = 0, pose_y = 0, pose_theta = 0\<rparr>, \<lparr>pose_x = 0, pose_y = 0, pose_theta = pi\<rparr>,
      \<lparr>pose_x = 1, pose_y = 0, pose_theta = 0\<rparr>, \<lparr>pose_x = 1, pose_y = 0, pose_theta = pi\<rparr>]"

definition inside_all :: polygon_test where
  "inside_all pts p = 1"

definition end_points :: line_iterator where
  "end_points m p q = [p, q]"

text \<open>The runs of parts II and III on the three maps.\<close>

definition example_out :: planner_out where
  "example_out = plan example_solver inside_all end_points example_room [] 1 (0, 0) [] (1, 0)
     4 0 1 2 [(0, 0), (1, 0)] example_poses"


definition blocked_out :: planner_out where
  "blocked_out = plan example_solver inside_all end_points blocked_room [] 1 (0, 0) [] (1, 0)
     4 0 1 2 [] []"

text \<open>An entry that has been written, with 0 or with 1.\<close>

definition binary_at :: "Mat \<Rightarrow> nat \<Rightarrow> nat \<Rightarrow> bool" where
  "binary_at M i j \<longleftrightarrow> data M i j = Some 0 \<or> data M i j = Some 1"

section \<open>Properties of the reweighting loop\<close>

lemma length_filter_eq_iff:
  "length (filter P xs) = length xs \<longleftrightarrow> (\<forall>x \<in> set xs. P x)"
proof (induction xs)
  case Nil
  show ?case by simp
next
  case (Cons a xs)
  have le: "length (filter P xs) \<le> length xs" by simp
  show ?case
  proof (cases "P a")
    case True
    then show ?thesis using Cons by simp
  next
    case False
    have "length (filter P xs) \<noteq> Suc (length xs)" using le by arith
    then show ?thesis using False by simp
  qed
qed

lemma number_of_last_measure_eq:
  assumes "r \<le> length ms"
  shows "number_of_last_measure ms r = r \<longleftrightarrow> (\<forall>m \<in> set (take r (rev ms)). m = last ms)"
proof -
  have "length (take r (rev ms)) = r" using assms by simp
  then show ?thesis
    unfolding number_of_last_measure_def
    using length_filter_eq_iff[of "\<lambda>m. m = last ms" "take r (rev ms)"] by simp
qed

lemma set_take_rev:
  assumes "r \<le> length ms"
  shows "(\<forall>m \<in> set (take r (rev ms)). P m) \<longleftrightarrow> (\<forall>i<r. P (ms ! (length ms - 1 - i)))"
proof -
  have "(\<forall>m \<in> set (take r (rev ms)). P m) \<longleftrightarrow> (\<forall>i<r. P (take r (rev ms) ! i))"
    using assms by (simp add: all_set_conv_all_nth)
  also have "\<dots> \<longleftrightarrow> (\<forall>i<r. P (ms ! (length ms - 1 - i)))"
    using assms by (simp add: rev_nth)
  finally show ?thesis .
qed

lemma check_terminal_condition_plateau:
  "check_terminal_condition ms r False \<longleftrightarrow> plateau ms r"
proof (cases "r \<le> length ms")
  case True
  then show ?thesis
    unfolding check_terminal_condition_def plateau_def
    by (simp add: number_of_last_measure_eq set_take_rev)
next
  case False
  then show ?thesis
    by (simp add: check_terminal_condition_def plateau_def)
qed

lemma loop_body_fields:
  "number_of_iterations (loop_body QSopt V r s) = number_of_iterations s + 1"
  "length (sparsity_measures (loop_body QSopt V r s)) = length (sparsity_measures s) + 1"
  "k \<le> length (sparsity_measures s) \<Longrightarrow>
     take k (sparsity_measures (loop_body QSopt V r s)) = take k (sparsity_measures s)"
  "sparsity_converged (loop_body QSopt V r s) =
     check_terminal_condition (sparsity_measures (loop_body QSopt V r s)) r (sparsity_converged s)"
  "length (vec_C (loop_body QSopt V r s)) = length (vec_C s)"
  by (simp_all add: loop_body_def Let_def solveOptimizationProblem_def build_problem_def)

lemma relaxation_loop_rec:
  assumes "sparsity_converged (loop_body QSopt V r s) = False"
    and "number_of_iterations (loop_body QSopt V r s) \<le> 200"
  shows "relaxation_loop QSopt V r s = relaxation_loop QSopt V r (loop_body QSopt V r s)"
  using assms by (subst relaxation_loop.simps) (simp add: Let_def)

lemma relaxation_loop_exit:
  assumes "\<not> (sparsity_converged (loop_body QSopt V r s) = False
            \<and> number_of_iterations (loop_body QSopt V r s) \<le> 200)"
  shows "relaxation_loop QSopt V r s = loop_body QSopt V r s"
  using assms by (subst relaxation_loop.simps) (auto simp: Let_def)

text \<open>
  The invariant of the loop: one measurement per iteration, and no plateau so far. At the
  exit the flag tells whether the measurements end in a plateau.
\<close>

lemma relaxation_loop_first_plateau:
  assumes "length (sparsity_measures s) = number_of_iterations s"
    and "sparsity_converged s = False"
    and "\<forall>k. 0 < k \<and> k \<le> number_of_iterations s \<longrightarrow> \<not> plateau (take k (sparsity_measures s)) r"
  shows "length (sparsity_measures (relaxation_loop QSopt V r s)) =
           number_of_iterations (relaxation_loop QSopt V r s)
       \<and> (sparsity_converged (relaxation_loop QSopt V r s) \<longleftrightarrow>
            plateau (sparsity_measures (relaxation_loop QSopt V r s)) r)
       \<and> (\<forall>k. 0 < k \<and> k < number_of_iterations (relaxation_loop QSopt V r s) \<longrightarrow>
            \<not> plateau (take k (sparsity_measures (relaxation_loop QSopt V r s))) r)"
  using assms
proof (induction QSopt V r s rule: relaxation_loop.induct)
  case (1 QSopt V r s)
  define s' where "s' = loop_body QSopt V r s"
  have len: "length (sparsity_measures s') = number_of_iterations s'"
    using "1.prems"(1) by (simp add: s'_def loop_body_fields)
  have n': "number_of_iterations s' = number_of_iterations s + 1"
    by (simp add: s'_def loop_body_fields)
  have conv: "sparsity_converged s' \<longleftrightarrow> plateau (sparsity_measures s') r"
    using "1.prems"(2) by (simp add: s'_def loop_body_fields(4) check_terminal_condition_plateau)
  have before: "\<not> plateau (take k (sparsity_measures s')) r"
    if "0 < k" "k < number_of_iterations s'" for k
  proof -
    have "k \<le> length (sparsity_measures s)" using that n' "1.prems"(1) by simp
    then have "take k (sparsity_measures s') = take k (sparsity_measures s)"
      by (simp add: s'_def loop_body_fields(3))
    moreover have "\<not> plateau (take k (sparsity_measures s)) r"
      using "1.prems"(3) that n' by simp
    ultimately show ?thesis by simp
  qed
  show ?case
  proof (cases "sparsity_converged s' = False \<and> number_of_iterations s' \<le> 200")
    case True
    have eq: "relaxation_loop QSopt V r s = relaxation_loop QSopt V r s'"
      using True unfolding s'_def by (intro relaxation_loop_rec) simp_all
    have all: "\<forall>k. 0 < k \<and> k \<le> number_of_iterations s' \<longrightarrow> \<not> plateau (take k (sparsity_measures s')) r"
    proof (intro allI impI)
      fix k assume k: "0 < k \<and> k \<le> number_of_iterations s'"
      show "\<not> plateau (take k (sparsity_measures s')) r"
      proof (cases "k < number_of_iterations s'")
        case True
        with k before show ?thesis by simp
      next
        case False
        with k len have "take k (sparsity_measures s') = sparsity_measures s'" by simp
        with conv \<open>sparsity_converged s' = False \<and> number_of_iterations s' \<le> 200\<close>
        show ?thesis by simp
      qed
    qed
    show ?thesis
      unfolding eq
      using "1.IH"[OF s'_def True len _ all] True by simp
  next
    case False
    have eq: "relaxation_loop QSopt V r s = s'"
      using False unfolding s'_def by (rule relaxation_loop_exit)
    show ?thesis unfolding eq using len conv before by simp
  qed
qed

lemma relaxation_loop_count:
  assumes "number_of_iterations s \<le> 200"
  shows "number_of_iterations (relaxation_loop QSopt V r s) \<le> 201
       \<and> number_of_iterations s < number_of_iterations (relaxation_loop QSopt V r s)
       \<and> (\<not> sparsity_converged (relaxation_loop QSopt V r s) \<longrightarrow>
            number_of_iterations (relaxation_loop QSopt V r s) = 201)"
  using assms
proof (induction QSopt V r s rule: relaxation_loop.induct)
  case (1 QSopt V r s)
  define s' where "s' = loop_body QSopt V r s"
  have n': "number_of_iterations s' = number_of_iterations s + 1"
    by (simp add: s'_def loop_body_fields)
  show ?case
  proof (cases "sparsity_converged s' = False \<and> number_of_iterations s' \<le> 200")
    case True
    have eq: "relaxation_loop QSopt V r s = relaxation_loop QSopt V r s'"
      using True unfolding s'_def by (intro relaxation_loop_rec) simp_all
    show ?thesis
      unfolding eq using "1.IH"[OF s'_def True] True n' by simp
  next
    case False
    have eq: "relaxation_loop QSopt V r s = s'"
      using False unfolding s'_def by (rule relaxation_loop_exit)
    show ?thesis unfolding eq using False n' "1.prems" by auto
  qed
qed

lemma length_vec_C_relaxation_loop:
  "length (vec_C (relaxation_loop QSopt V r s)) = length (vec_C s)"
proof (induction QSopt V r s rule: relaxation_loop.induct)
  case (1 QSopt V r s)
  show ?case
  proof (cases "sparsity_converged (loop_body QSopt V r s) = False
      \<and> number_of_iterations (loop_body QSopt V r s) \<le> 200")
    case True
    have "relaxation_loop QSopt V r s = relaxation_loop QSopt V r (loop_body QSopt V r s)"
      using True by (intro relaxation_loop_rec) simp_all
    then show ?thesis
      using "1.IH"[OF refl True] by (simp add: loop_body_fields(5))
  next
    case False
    have "relaxation_loop QSopt V r s = loop_body QSopt V r s"
      using False by (rule relaxation_loop_exit)
    then show ?thesis
      by (simp add: loop_body_fields(5))
  qed
qed

lemma init_state_invariant:
  "length (sparsity_measures (init_state n)) = number_of_iterations (init_state n)"
  "sparsity_converged (init_state n) = False"
  "number_of_iterations (init_state n) = 0"
  "length (vec_C (init_state n)) = n"
  by (simp_all add: init_state_def)

text \<open>A check range beyond 201 can never be met: the loop stops on the counter alone.\<close>

lemma relaxation_loop_large_range:
  assumes "201 < r"
  shows "\<not> sparsity_converged (relaxation_loop QSopt V r (init_state n))"
proof
  assume c: "sparsity_converged (relaxation_loop QSopt V r (init_state n))"
  have inv: "\<forall>k. 0 < k \<and> k \<le> number_of_iterations (init_state n) \<longrightarrow>
      \<not> plateau (take k (sparsity_measures (init_state n))) r"
    by (simp add: init_state_invariant)
  note fp = relaxation_loop_first_plateau[OF init_state_invariant(1,2) inv, of QSopt V]
  from fp c have "plateau (sparsity_measures (relaxation_loop QSopt V r (init_state n))) r"
    by simp
  then have "r \<le> number_of_iterations (relaxation_loop QSopt V r (init_state n))"
    using fp by (simp add: plateau_def)
  moreover have "number_of_iterations (relaxation_loop QSopt V r (init_state n)) \<le> 201"
    using relaxation_loop_count[of "init_state n" QSopt V r] by (simp add: init_state_invariant)
  ultimately show False using assms by simp
qed

text \<open>
  C2. The claim bounds the relaxed solves of a run by 200. The loop is a \<^verbatim>\<open>do ... while\<close>
  whose counter is incremented at the head of the body and tested with
  \<^verbatim>\<open>number_of_iterations <= 200\<close> at its foot: a run makes at most 201 passes, and whenever it
  leaves the loop without having declared convergence it has made 201, one more than the
  bound.
\<close>

theorem iterations_without_convergence:
  "number_of_iterations (relaxation_loop QSopt V r (init_state n)) \<le> 201 \<and>
   (\<not> sparsity_converged (relaxation_loop QSopt V r (init_state n)) \<longrightarrow>
    number_of_iterations (relaxation_loop QSopt V r (init_state n)) = 201)"
  using relaxation_loop_count[of "init_state n" QSopt V r]
  by (simp add: init_state_invariant)

theorem iterations_without_convergence_witness:
  "\<not> sparsity_converged (relaxation_loop example_solver (Mat_new 0 0) 300 (init_state 0)) \<and>
   number_of_iterations (relaxation_loop example_solver (Mat_new 0 0) 300 (init_state 0)) = 201"
proof -
  have h: "\<not> sparsity_converged (relaxation_loop example_solver (Mat_new 0 0) 300 (init_state 0))"
    by (rule relaxation_loop_large_range) simp
  show ?thesis
    using h iterations_without_convergence[of example_solver "Mat_new 0 0" 300 0] by simp
qed









text \<open>
  C6. In every iteration the terminal condition is met exactly when at least
  \<open>sparsity_check_range\<close> measurements exist and the last \<open>sparsity_check_range\<close> of them
  equal the most recent one; and the loop, started as \<^verbatim>\<open>getExplorationPath\<close> starts it, ends
  with the flag set exactly when its measurements end in such a plateau, no shorter prefix
  of the measurements having ended in one.
\<close>

theorem convergence_at_first_plateau:
  "(check_terminal_condition ms r False \<longleftrightarrow> plateau ms r) \<and>
   length (sparsity_measures (relaxation_loop QSopt V r (init_state n))) =
     number_of_iterations (relaxation_loop QSopt V r (init_state n)) \<and>
   (sparsity_converged (relaxation_loop QSopt V r (init_state n)) \<longleftrightarrow>
      plateau (sparsity_measures (relaxation_loop QSopt V r (init_state n))) r) \<and>
   (\<forall>k. 0 < k \<and> k < number_of_iterations (relaxation_loop QSopt V r (init_state n)) \<longrightarrow>
      \<not> plateau (take k (sparsity_measures (relaxation_loop QSopt V r (init_state n)))) r)"
proof -
  have inv: "\<forall>k. 0 < k \<and> k \<le> number_of_iterations (init_state n) \<longrightarrow>
      \<not> plateau (take k (sparsity_measures (init_state n))) r"
    by (simp add: init_state_invariant)
  show ?thesis
    using relaxation_loop_first_plateau[OF init_state_invariant(1,2) inv, of QSopt V]
      check_terminal_condition_plateau[of ms r]
    by simp
qed

text \<open>The run of the loop on the example solver, for four candidates and a check range of 2.\<close>

lemma example_loop:
  "vec_C (relaxation_loop example_solver M 2 (init_state 4)) = [Fin 1, Fin 0, Fin 1, Fin 0]"
  "number_of_iterations (relaxation_loop example_solver M 2 (init_state 4)) = 2"
  "sparsity_measures (relaxation_loop example_solver M 2 (init_state 4)) = [2, 2]"
  "sparsity_converged (relaxation_loop example_solver M 2 (init_state 4))"
proof -
  note defs = loop_body_def Let_def solveOptimizationProblem_def build_problem_def
    example_solver_def sparsity_measure_def check_terminal_condition_def
    number_of_last_measure_def upt_conv_Cons
  define s1 where "s1 = loop_body example_solver M 2 (init_state 4)"
  have s1: "vec_C s1 = [Fin 1, Fin 0, Fin 1, Fin 0]" "sparsity_converged s1 = False"
    "number_of_iterations s1 = 1" "sparsity_measures s1 = [2]" "length (vec_W s1) = 4"
    by (simp_all add: s1_def init_state_def defs)
  define s2 where "s2 = loop_body example_solver M 2 s1"
  have s2: "vec_C s2 = [Fin 1, Fin 0, Fin 1, Fin 0]" "sparsity_converged s2 = True"
    "number_of_iterations s2 = 2" "sparsity_measures s2 = [2, 2]"
    using s1 by (simp_all add: s2_def defs)
  have e1: "relaxation_loop example_solver M 2 (init_state 4) = relaxation_loop example_solver M 2 s1"
    using s1 unfolding s1_def by (intro relaxation_loop_rec) simp_all
  have e2: "relaxation_loop example_solver M 2 s1 = s2"
    using s2 unfolding s2_def by (intro relaxation_loop_exit) simp
  show "vec_C (relaxation_loop example_solver M 2 (init_state 4)) = [Fin 1, Fin 0, Fin 1, Fin 0]"
    "number_of_iterations (relaxation_loop example_solver M 2 (init_state 4)) = 2"
    "sparsity_measures (relaxation_loop example_solver M 2 (init_state 4)) = [2, 2]"
    "sparsity_converged (relaxation_loop example_solver M 2 (init_state 4))"
    using s2 by (simp_all add: e1 e2)
qed

theorem convergence_at_first_plateau_witness:
  "check_terminal_condition [2, 2] 2 False \<and> plateau [2, 2] 2 \<and> \<not> plateau (take 1 [2, 2]) 2 \<and>
   sparsity_converged (relaxation_loop example_solver (Mat_new 0 0) 2 (init_state 4))"
proof -
  note t = convergence_at_first_plateau[of "[2, 2]" 2 example_solver "Mat_new 0 0" 4]
  have p: "plateau [2, 2] 2"
    using t by (simp add: example_loop)
  have c: "check_terminal_condition [2, 2] 2 False"
    using t p by simp
  have "(0::nat) < 1 \<and> 1 < number_of_iterations (relaxation_loop example_solver (Mat_new 0 0) 2 (init_state 4))"
    by (simp add: example_loop)
  with t have "\<not> plateau (take 1 (sparsity_measures (relaxation_loop example_solver (Mat_new 0 0) 2 (init_state 4)))) 2"
    by blast
  then have n: "\<not> plateau (take 1 [2, 2]) 2" by (simp add: example_loop)
  show ?thesis using p c n by (simp add: example_loop)
qed

section \<open>Properties of the visibility matrix\<close>

lemma Mat_set_data:
  "data (Mat_set M i j v) i' j' = (if i' = i \<and> j' = j then Some v else data M i' j')"
  by (simp add: Mat_set_def)

lemma Mat_set_shape: "rows (Mat_set M i j v) = rows M" "cols (Mat_set M i j v) = cols M"
  by (simp_all add: Mat_set_def)

text \<open>Every path through the test ends in one write of the entry \<open>(i, j)\<close>.\<close>

lemma check_neighbor_writes:
  "\<exists>v. (v = 0 \<or> v = 1) \<and>
     check_neighbor ppt li room res maxang smallest largest pts vec pose j neighbor i M
       = Mat_set M i j v"
  unfolding check_neighbor_def Let_def by auto

lemma check_neighbor_binary:
  "binary_at (check_neighbor ppt li room res maxang smallest largest pts vec pose j neighbor i M) i j"
  using check_neighbor_writes[of ppt li room res maxang smallest largest pts vec pose j neighbor i M]
  by (auto simp: binary_at_def Mat_set_data)

lemma check_neighbor_other:
  "(i', j') \<noteq> (i, j) \<Longrightarrow>
   data (check_neighbor ppt li room res maxang smallest largest pts vec pose j neighbor i M) i' j'
     = data M i' j'"
  using check_neighbor_writes[of ppt li room res maxang smallest largest pts vec pose j neighbor i M]
  by (auto simp: Mat_set_data)

lemma check_neighbor_shape:
  "rows (check_neighbor ppt li room res maxang smallest largest pts vec pose j neighbor i M) = rows M"
  "cols (check_neighbor ppt li room res maxang smallest largest pts vec pose j neighbor i M) = cols M"
  using check_neighbor_writes[of ppt li room res maxang smallest largest pts vec pose j neighbor i M]
  by (auto simp: Mat_set_shape)

lemma check_neighbor_preserves:
  "binary_at M i' j' \<Longrightarrow>
   binary_at (check_neighbor ppt li room res maxang smallest largest pts vec pose j neighbor i M) i' j'"
  using check_neighbor_binary[of ppt li room res maxang smallest largest pts vec pose j neighbor i M]
    check_neighbor_other[of i' j' i j ppt li room res maxang smallest largest pts vec pose neighbor M]
  by (cases "(i', j') = (i, j)") (auto simp: binary_at_def)

text \<open>The loop over the cells, for one pose: the entries of column \<open>j\<close> get written, no
  written entry is lost.\<close>

lemma fold_cells_binary:
  assumes step: "\<And>i M. f i M =
    check_neighbor ppt li room res maxang smallest largest pts vec pose j (cs i) i M"
  shows "(\<forall>i \<in> set idxs. binary_at (fold f idxs M) i j)
       \<and> (\<forall>i' j'. binary_at M i' j' \<longrightarrow> binary_at (fold f idxs M) i' j')
       \<and> rows (fold f idxs M) = rows M \<and> cols (fold f idxs M) = cols M"
proof (induction idxs arbitrary: M)
  case Nil
  show ?case by simp
next
  case (Cons a idxs)
  have a: "binary_at (f a M) a j" by (simp add: step check_neighbor_binary)
  have p: "\<And>i' j'. binary_at M i' j' \<Longrightarrow> binary_at (f a M) i' j'"
    by (simp add: step check_neighbor_preserves)
  have sh: "rows (f a M) = rows M" "cols (f a M) = cols M"
    by (simp_all add: step check_neighbor_shape)
  show ?case using Cons.IH[of "f a M"] a p sh by simp
qed

lemma check_pose_binary:
  "(\<forall>i < length cs. binary_at
      (check_pose ppt li room res origin fp vec maxang smallest largest cs pose j M) i j)
   \<and> (\<forall>i' j'. binary_at M i' j' \<longrightarrow> binary_at
      (check_pose ppt li room res origin fp vec maxang smallest largest cs pose j M) i' j')
   \<and> rows (check_pose ppt li room res origin fp vec maxang smallest largest cs pose j M) = rows M
   \<and> cols (check_pose ppt li room res origin fp vec maxang smallest largest cs pose j M) = cols M"
  unfolding check_pose_def Let_def
  using fold_cells_binary[where idxs = "[0..<length cs]" and cs = "\<lambda>i. cs ! i", OF refl]
  by simp

lemma fold_poses_binary:
  assumes step: "\<And>j M. f j M =
    check_pose ppt li room res origin fp vec maxang smallest largest cs (ps j) j M"
  shows "(\<forall>j \<in> set js. \<forall>i < length cs. binary_at (fold f js M) i j)
       \<and> (\<forall>i' j'. binary_at M i' j' \<longrightarrow> binary_at (fold f js M) i' j')
       \<and> rows (fold f js M) = rows M \<and> cols (fold f js M) = cols M"
proof (induction js arbitrary: M)
  case Nil
  show ?case by simp
next
  case (Cons a js)
  note cp = check_pose_binary[of cs ppt li room res origin fp vec maxang smallest largest "ps a" a M]
  have a: "\<forall>i < length cs. binary_at (f a M) i a" using cp by (simp add: step)
  have p: "\<And>i' j'. binary_at M i' j' \<Longrightarrow> binary_at (f a M) i' j'" using cp by (simp add: step)
  have sh: "rows (f a M) = rows M" "cols (f a M) = cols M" using cp by (simp_all add: step)
  show ?case using Cons.IH[of "f a M"] a p sh by simp
qed

lemma construct_V_binary:
  "i < length cs \<Longrightarrow> j < length ps \<Longrightarrow>
   binary_at (construct_V ppt li room res origin fp vec maxang smallest largest cs ps) i j"
  unfolding construct_V_def
  using fold_poses_binary[where js = "[0..<length ps]" and ps = "\<lambda>j. ps ! j" and cs = cs, OF refl]
  by simp

lemma construct_V_shape:
  "rows (construct_V ppt li room res origin fp vec maxang smallest largest cs ps) = length cs"
  "cols (construct_V ppt li room res origin fp vec maxang smallest largest cs ps) = length ps"
  unfolding construct_V_def
  using fold_poses_binary[where js = "[0..<length ps]" and ps = "\<lambda>j. ps ! j" and cs = cs, OF refl]
  by (simp_all add: Mat_new_def)

text \<open>The visibility matrix of the example: two cells in a row, two poses on each.\<close>

lemma pi_le_4: "pi \<le> 4"
  using pi_less_4 by simp

lemma example_V:
  "map (\<lambda>i. map (data (construct_V inside_all end_points example_room 1 (0, 0) [] (1, 0) 4 0 1
      [(0, 0), (1, 0)] example_poses) i) [0, 1, 2, 3]) [0, 1]
   = [[Some 0, Some 0, Some 1, Some 1], [Some 1, Some 1, Some 0, Some 0]]"
  by (simp add: construct_V_def check_pose_def check_neighbor_def Let_def distance_gate_def
      angle_gate_def angle_of_def compute_quotient_def clamp_quotient_def norm2_def rotate_def
      hit_obstacle_def Mat_set_def Mat_new_def example_room_def trunc_def upt_conv_Cons
      example_poses_def inside_all_def end_points_def pi_le_4)

text \<open>
  C10. Whatever the gates and the tests answer, the body of the loop over the cells writes
  the entry \<open>(i, j)\<close> once, with 0 or with 1; and after the two loops every entry of the
  matrix, for every cell \<open>i\<close> and every candidate pose \<open>j\<close>, is written and is 0 or 1.
\<close>

theorem visibility_matrix_binary:
  "(\<exists>v. (v = 0 \<or> v = 1) \<and>
      check_neighbor ppt li room res maxang smallest largest pts vec pose j' neighbor i' M
        = Mat_set M i' j' v) \<and>
   (\<forall>i<length centers. \<forall>j<length poses.
      data (construct_V ppt li room res origin fp vec maxang smallest largest centers poses) i j
        = Some 0 \<or>
      data (construct_V ppt li room res origin fp vec maxang smallest largest centers poses) i j
        = Some 1)"
  using check_neighbor_writes[of ppt li room res maxang smallest largest pts vec pose j' neighbor i' M]
    construct_V_binary[of _ centers _ poses ppt li room res origin fp vec maxang smallest largest]
  by (simp add: binary_at_def)

theorem visibility_matrix_binary_witness:
  "(0::nat) < length [(0, 0), (1, 0) :: Point] \<and> 2 < length example_poses \<and>
   (data (construct_V inside_all end_points example_room 1 (0, 0) [] (1, 0) 4 0 1
      [(0, 0), (1, 0)] example_poses) 0 2 = Some 0 \<or>
    data (construct_V inside_all end_points example_room 1 (0, 0) [] (1, 0) 4 0 1
      [(0, 0), (1, 0)] example_poses) 0 2 = Some 1)"
proof -
  have h: "(0::nat) < length [(0, 0), (1, 0) :: Point]" "2 < length example_poses"
    by (simp_all add: example_poses_def)
  from visibility_matrix_binary[where centers = "[(0, 0), (1, 0)]" and poses = example_poses
      and ppt = inside_all and li = end_points and room = example_room and res = 1
      and origin = "(0, 0)" and fp = "[]" and vec = "(1, 0)" and maxang = 4 and smallest = 0
      and largest = 1]
  have "\<forall>i<length [(0, 0), (1, 0) :: Point]. \<forall>j<length example_poses.
      data (construct_V inside_all end_points example_room 1 (0, 0) [] (1, 0) 4 0 1
        [(0, 0), (1, 0)] example_poses) i j = Some 0 \<or>
      data (construct_V inside_all end_points example_room 1 (0, 0) [] (1, 0) 4 0 1
        [(0, 0), (1, 0)] example_poses) i j = Some 1"
    by (rule conjunct2)
  with h show ?thesis by blast
qed

lemma norm2_eq_0: "norm2 v = 0 \<longleftrightarrow> v = (0, 0)"
  by (cases v) (simp add: norm2_def sum_power2_eq_zero_iff power2_eq_square[symmetric])

lemma zero_denominator:
  assumes "norm2 v * norm2 p = 0"
  shows "compute_quotient v p = NaN" "angle_of v p = NaN" "\<not> angle_gate (angle_of v p) m"
proof -
  have "v = (0, 0) \<or> p = (0, 0)" using assms by (simp add: norm2_eq_0)
  then have "fst v * fst p + snd v * snd p = 0" by auto
  with assms show q: "compute_quotient v p = NaN" by (simp add: compute_quotient_def Let_def)
  then show a: "angle_of v p = NaN" by (simp add: angle_of_def clamp_quotient_def)
  then show "\<not> angle_gate (angle_of v p) m" by (simp add: angle_gate_def)
qed




text \<open>
  C9. The claim asks that no division with a zero denominator is carried out. The quotient
  \<^verbatim>\<open>dot/abs\<close> is computed without a test of \<^verbatim>\<open>abs\<close>: when the product of the two norms is zero
  (the cell is the pose's own position, or the robot-to-fow vector is zero), the quotient is
  \<open>0/0\<close>, a NaN, which passes both clamps and \<^verbatim>\<open>std::acos\<close> and makes the comparison with
  \<^verbatim>\<open>max_fow_angle\<close> false.
\<close>

theorem zero_denominator_gives_nan:
  "norm2 v * norm2 p = 0 \<Longrightarrow>
   compute_quotient v p = NaN \<and> angle_of v p = NaN \<and> \<not> angle_gate (angle_of v p) max_fow_angle"
  using zero_denominator(1,2)[of v p] zero_denominator(3)[of v p max_fow_angle] by simp

theorem zero_denominator_gives_nan_witness:
  "norm2 (1, 0) * norm2 (0, 0) = 0 \<and> compute_quotient (1, 0) (0, 0) = NaN
   \<and> angle_of (1, 0) (0, 0) = NaN \<and> \<not> angle_gate (angle_of (1, 0) (0, 0)) 4"
proof -
  have h: "norm2 (1, 0) * norm2 (0, 0) = 0" by (simp add: norm2_def)
  show ?thesis using h zero_denominator_gives_nan[OF h, of 4] by auto
qed

section \<open>Properties of the reduction and of the whole run\<close>

lemma feq_zero: "feq c (Fin 0) \<longleftrightarrow> c = Fin 0"
  by (cases c) simp_all

text \<open>
  The loop of the reduction, from any state: the columns appended to \<^verbatim>\<open>V_reduced\<close> are, in
  order, the columns of \<open>V\<close> at the indices whose value is 0.0.
\<close>

lemma fold_reduce_step:
  "let kept = filter (\<lambda>idx. C ! idx = Fin 0) idxs;
       st' = fold (reduce_step C M) idxs st
   in fst st' = fst st + length kept
    \<and> rows (snd st') = rows (snd st)
    \<and> cols (snd st') = cols (snd st) + length kept
    \<and> (\<forall>i k. k < cols (snd st) + length kept \<longrightarrow>
          data (snd st') i k =
            (if k < cols (snd st) then data (snd st) i k
             else data M i (kept ! (k - cols (snd st)))))"
proof (induction idxs arbitrary: st)
  case Nil
  show ?case by (simp add: Let_def)
next
  case (Cons a idxs)
  show ?case
  proof (cases "C ! a = Fin 0")
    case False
    then have "reduce_step C M a st = st" by (simp add: reduce_step_def feq_zero)
    with False Cons.IH[of st] show ?thesis by (simp add: Let_def)
  next
    case True
    define st1 where "st1 = reduce_step C M a st"
    have st1: "fst st1 = fst st + 1" "rows (snd st1) = rows (snd st)"
      "cols (snd st1) = cols (snd st) + 1"
      "\<And>i k. data (snd st1) i k = (if k < cols (snd st) then data (snd st) i k else data M i a)"
      using True by (simp_all add: st1_def reduce_step_def feq_zero hconcat_def Mat_col_def)
    define kept where "kept = filter (\<lambda>idx. C ! idx = Fin 0) idxs"
    have IH: "fst (fold (reduce_step C M) idxs st1) = fst st1 + length kept"
      "rows (snd (fold (reduce_step C M) idxs st1)) = rows (snd st1)"
      "cols (snd (fold (reduce_step C M) idxs st1)) = cols (snd st1) + length kept"
      "\<And>i k. k < cols (snd st1) + length kept \<Longrightarrow>
          data (snd (fold (reduce_step C M) idxs st1)) i k =
            (if k < cols (snd st1) then data (snd st1) i k
             else data M i (kept ! (k - cols (snd st1))))"
      using Cons.IH[of st1] by (simp_all add: Let_def kept_def)
    have entries: "data (snd (fold (reduce_step C M) idxs st1)) i k =
            (if k < cols (snd st) then data (snd st) i k
             else data M i ((a # kept) ! (k - cols (snd st))))"
      if "k < cols (snd st) + length (a # kept)" for i k
    proof -
      have "k < cols (snd st1) + length kept" using that st1(3) by simp
      note e = IH(4)[OF this, of i]
      consider "k < cols (snd st)" | "k = cols (snd st)" | "cols (snd st) < k" by linarith
      then show ?thesis
      proof cases
        case 1
        then show ?thesis using e st1 by simp
      next
        case 2
        then show ?thesis using e st1 by simp
      next
        case 3
        then have "k - cols (snd st) = Suc (k - cols (snd st1))" using st1(3) by simp
        then show ?thesis using e st1 3 by simp
      qed
    qed
    have "filter (\<lambda>idx. C ! idx = Fin 0) (a # idxs) = a # kept"
      using True by (simp add: kept_def)
    moreover have "fold (reduce_step C M) (a # idxs) st = fold (reduce_step C M) idxs st1"
      by (simp add: st1_def)
    ultimately show ?thesis
      using IH(1,2,3) st1(1,2,3) entries by (simp add: Let_def)
  qed
qed

lemma reduce_problem_spec:
  "fst (reduce_problem C M n) = length (filter (\<lambda>idx. C ! idx = Fin 0) [0..<length C])"
  "rows (snd (reduce_problem C M n)) = n"
  "cols (snd (reduce_problem C M n)) = length (filter (\<lambda>idx. C ! idx = Fin 0) [0..<length C])"
  "k < length (filter (\<lambda>idx. C ! idx = Fin 0) [0..<length C]) \<Longrightarrow>
     data (snd (reduce_problem C M n)) i k
       = data M i (filter (\<lambda>idx. C ! idx = Fin 0) [0..<length C] ! k)"
proof -
  define kept where "kept = filter (\<lambda>idx. C ! idx = Fin 0) [0..<length C]"
  note f = fold_reduce_step[of C "[0..<length C]" M "(0, Mat_new n 1)", unfolded Let_def,
      folded kept_def]
  show "fst (reduce_problem C M n) = length (filter (\<lambda>idx. C ! idx = Fin 0) [0..<length C])"
    using f by (simp add: reduce_problem_def Let_def kept_def)
  show "rows (snd (reduce_problem C M n)) = n"
    using f by (simp add: reduce_problem_def Let_def colRange_def Mat_new_def)
  show "cols (snd (reduce_problem C M n)) = length (filter (\<lambda>idx. C ! idx = Fin 0) [0..<length C])"
    using f by (simp add: reduce_problem_def Let_def colRange_def Mat_new_def kept_def)
  show "data (snd (reduce_problem C M n)) i k
      = data M i (filter (\<lambda>idx. C ! idx = Fin 0) [0..<length C] ! k)"
    if "k < length (filter (\<lambda>idx. C ! idx = Fin 0) [0..<length C])"
  proof -
    have "k + 1 < cols (snd (0::nat, Mat_new n 1)) + length kept"
      using that by (simp add: Mat_new_def kept_def)
    with f have "data (snd (fold (reduce_step C M) [0..<length C] (0, Mat_new n 1))) i (k + 1)
        = data M i (kept ! k)"
      by (simp add: Mat_new_def)
    then show ?thesis by (simp add: reduce_problem_def Let_def colRange_def kept_def)
  qed
qed


lemma plan_fields:
  "path (plan QSopt ppt li room path_arg res origin fp vec maxang smallest largest r centers poses)
     = path_arg"
  "cell_centers (plan QSopt ppt li room path_arg res origin fp vec maxang smallest largest r centers poses)
     = centers"
  "candidate_sensing_poses (plan QSopt ppt li room path_arg res origin fp vec maxang smallest largest r centers poses)
     = poses"
  "V_matrix (plan QSopt ppt li room path_arg res origin fp vec maxang smallest largest r centers poses)
     = construct_V ppt li room res origin fp vec maxang smallest largest centers poses"
  "relaxation (plan QSopt ppt li room path_arg res origin fp vec maxang smallest largest r centers poses)
     = relaxation_loop QSopt
         (construct_V ppt li room res origin fp vec maxang smallest largest centers poses) r
         (init_state (length poses))"
  by (simp_all add: plan_def Let_def)

lemma plan_reduced:
  "new_number_of_variables (plan QSopt ppt li room path_arg res origin fp vec maxang smallest largest r centers poses)
     = fst (reduce_problem
         (vec_C (relaxation (plan QSopt ppt li room path_arg res origin fp vec maxang smallest largest r centers poses)))
         (V_matrix (plan QSopt ppt li room path_arg res origin fp vec maxang smallest largest r centers poses))
         (length centers))"
  "V_reduced (plan QSopt ppt li room path_arg res origin fp vec maxang smallest largest r centers poses)
     = snd (reduce_problem
         (vec_C (relaxation (plan QSopt ppt li room path_arg res origin fp vec maxang smallest largest r centers poses)))
         (V_matrix (plan QSopt ppt li room path_arg res origin fp vec maxang smallest largest r centers poses))
         (length centers))"
  "C_reduced (plan QSopt ppt li room path_arg res origin fp vec maxang smallest largest r centers poses)
     = map (\<lambda>v. to_int (QSopt
         (number_of_iterations (relaxation (plan QSopt ppt li room path_arg res origin fp vec maxang smallest largest r centers poses)) + 1)
         (build_problem
            (new_number_of_variables (plan QSopt ppt li room path_arg res origin fp vec maxang smallest largest r centers poses))
            (V_reduced (plan QSopt ppt li room path_arg res origin fp vec maxang smallest largest r centers poses))
            None) v))
       [0..<new_number_of_variables (plan QSopt ppt li room path_arg res origin fp vec maxang smallest largest r centers poses)]"
  by (simp_all add: plan_def Let_def solveOptimizationProblem_def build_problem_def)

lemma plan_length_C:
  "length (vec_C (relaxation (plan QSopt ppt li room path_arg res origin fp vec maxang smallest largest r centers poses)))
     = length poses"
  by (simp add: plan_fields(5) length_vec_C_relaxation_loop init_state_invariant(4))


text \<open>The example run: the relaxed solution, the reduced problem and the final solution.\<close>

lemma example_out_fields:
  "vec_C (relaxation example_out) = [Fin 1, Fin 0, Fin 1, Fin 0]"
  "number_of_iterations (relaxation example_out) = 2"
  "filter (\<lambda>idx. vec_C (relaxation example_out) ! idx = Fin 0) [0..<length example_poses] = [1, 3]"
  "new_number_of_variables example_out = 2"
  "C_reduced example_out = [1, 1]"
  "path example_out = []"
proof -
  have l: "length example_poses = 4" by (simp add: example_poses_def)
  show c: "vec_C (relaxation example_out) = [Fin 1, Fin 0, Fin 1, Fin 0]"
    and i: "number_of_iterations (relaxation example_out) = 2"
    by (simp_all add: example_out_def plan_fields(5) l example_loop)
  show k: "filter (\<lambda>idx. vec_C (relaxation example_out) ! idx = Fin 0) [0..<length example_poses]
      = [1, 3]"
    by (simp add: c l upt_conv_Cons)
  have "new_number_of_variables example_out
      = length (filter (\<lambda>idx. vec_C (relaxation example_out) ! idx = Fin 0)
          [0..<length (vec_C (relaxation example_out))])"
    unfolding example_out_def by (simp only: plan_reduced(1) reduce_problem_spec(1))
  then show n: "new_number_of_variables example_out = 2"
    by (simp add: c upt_conv_Cons)
  have "C_reduced example_out
      = map (\<lambda>v. to_int (example_solver (number_of_iterations (relaxation example_out) + 1)
          (build_problem (new_number_of_variables example_out) (V_reduced example_out) None) v))
        [0..<new_number_of_variables example_out]"
    unfolding example_out_def by (simp only: plan_reduced(3))
  then show "C_reduced example_out = [1, 1]"
    by (simp add: n build_problem_def example_solver_def trunc_def upt_conv_Cons)
  show "path example_out = []"
    by (simp add: example_out_def plan_fields(1))
qed


text \<open>The discretisation of the three maps.\<close>

lemma example_discretisation:
  "get_cells example_room 1 [(0, 0), (1, 0)] = Some [(0, 0), (1, 0)]"
  "get_poses pi pi [(0, 0), (1, 0)] [] = Some example_poses"
  "get_cells single_room 1 [(0, 0), (0, 0)] = Some [(0, 0)]"
  "get_poses pi pi [(0, 0)] [] = Some (take 2 example_poses)"
  "get_cells blocked_room 1 [(0, 0), (0, 0)] = Some []"
  by (simp_all add: get_cells_def to_size_t_def size_t_step_def cells_y.simps cells_x.simps
      example_room_def single_room_def blocked_room_def poses_of_center.simps example_poses_def)

lemma getExplorationPath_returns:
  assumes "get_cells room cell_size coords = Some centers"
    and "get_poses PI delta centers [] = Some poses"
  shows "getExplorationPath PI QSopt ppt li room path_arg res start origin cell_size delta coords
           fp vec maxang smallest largest r
         = Some (Inr (plan QSopt ppt li room path_arg res origin fp vec maxang smallest largest r
                        centers poses))"
  using assms by (simp add: getExplorationPath_def)

text \<open>
  C1. The claim is that a run that completes has written the selected poses to \<^verbatim>\<open>path\<close>. No
  statement of the function assigns to \<^verbatim>\<open>path\<close>: after every run that returns, \<^verbatim>\<open>path\<close> is what
  the caller passed. On the example the final integer solution selects two poses and
  \<^verbatim>\<open>path\<close> is still empty.
\<close>

theorem path_never_written:
  "getExplorationPath PI QSopt ppt li room path_arg res start origin cell_size delta coords
     fp vec maxang smallest largest r = Some (Inr out) \<Longrightarrow>
   path out = path_arg"
  by (auto simp: getExplorationPath_def plan_fields(1) split: Option.bind_splits)

theorem path_never_written_witness:
  "getExplorationPath pi example_solver inside_all end_points example_room [] 1 (0, 0) (0, 0) 1 pi
     [(0, 0), (1, 0)] [] (1, 0) 4 0 1 2 = Some (Inr example_out)
   \<and> new_number_of_variables example_out = 2 \<and> C_reduced example_out = [1, 1]
   \<and> path example_out = []"
proof -
  have h: "getExplorationPath pi example_solver inside_all end_points example_room [] 1 (0, 0)
     (0, 0) 1 pi [(0, 0), (1, 0)] [] (1, 0) 4 0 1 2 = Some (Inr example_out)"
    unfolding example_out_def
    by (rule getExplorationPath_returns[OF example_discretisation(1,2)])
  show ?thesis
    using h path_never_written[OF h] example_out_fields(4,5) by simp
qed





text \<open>
  C5, as stated: with no free cell, the function fails with \<open>EmptyRegionError\<close>. On the map
  whose only pixel is occupied the discretisation finds no cell, and the run completes.
\<close>

theorem empty_region_counterexample:
  "get_cells blocked_room 1 [(0, 0), (0, 0)] = Some []
   \<and> getExplorationPath pi example_solver inside_all end_points blocked_room [] 1 (0, 0) (0, 0) 1 pi
     [(0, 0), (0, 0)] [] (1, 0) 4 0 1 2 = Some (Inr blocked_out)
   \<and> getExplorationPath pi example_solver inside_all end_points blocked_room [] 1 (0, 0) (0, 0) 1 pi
     [(0, 0), (0, 0)] [] (1, 0) 4 0 1 2 \<noteq> Some (Inl EmptyRegionError)"
proof -
  have g: "get_poses pi pi [] [] = Some []" by simp
  have "getExplorationPath pi example_solver inside_all end_points blocked_room [] 1 (0, 0)
     (0, 0) 1 pi [(0, 0), (0, 0)] [] (1, 0) 4 0 1 2 = Some (Inr blocked_out)"
    unfolding blocked_out_def
    by (rule getExplorationPath_returns[OF example_discretisation(5) g])
  then show ?thesis using example_discretisation(5) by simp
qed

text \<open>
  C5, amended: with no free cell, the function raises no error and goes on: there is no
  candidate pose, the visibility matrix is empty, the relaxation loop runs (at least one
  solve), the reduced problem has no variable and is solved, and the run returns with
  \<^verbatim>\<open>path\<close> as the caller passed it.
\<close>

theorem empty_region_run_completes:
  assumes "get_cells room cell_size coords = Some []"
  shows "getExplorationPath PI QSopt ppt li room path_arg res start origin cell_size delta coords
           fp vec maxang smallest largest r
         = Some (Inr (plan QSopt ppt li room path_arg res origin fp vec maxang smallest largest r
                        [] []))
       \<and> candidate_sensing_poses
           (plan QSopt ppt li room path_arg res origin fp vec maxang smallest largest r [] []) = []
       \<and> rows (V_matrix
           (plan QSopt ppt li room path_arg res origin fp vec maxang smallest largest r [] [])) = 0
       \<and> cols (V_matrix
           (plan QSopt ppt li room path_arg res origin fp vec maxang smallest largest r [] [])) = 0
       \<and> 0 < number_of_iterations (relaxation
           (plan QSopt ppt li room path_arg res origin fp vec maxang smallest largest r [] []))
       \<and> new_number_of_variables
           (plan QSopt ppt li room path_arg res origin fp vec maxang smallest largest r [] []) = 0
       \<and> C_reduced
           (plan QSopt ppt li room path_arg res origin fp vec maxang smallest largest r [] []) = []
       \<and> path
           (plan QSopt ppt li room path_arg res origin fp vec maxang smallest largest r [] [])
         = path_arg"
proof -
  define out where
    "out = plan QSopt ppt li room path_arg res origin fp vec maxang smallest largest r [] []"
  have g: "get_poses PI delta [] [] = Some []" by simp
  have ret: "getExplorationPath PI QSopt ppt li room path_arg res start origin cell_size delta
      coords fp vec maxang smallest largest r = Some (Inr out)"
    unfolding out_def by (rule getExplorationPath_returns[OF assms g])
  have ps: "candidate_sensing_poses out = []" and pa: "path out = path_arg"
    by (simp_all add: out_def plan_fields)
  have sh: "rows (V_matrix out) = 0" "cols (V_matrix out) = 0"
    by (simp_all add: out_def plan_fields(4) construct_V_shape)
  have it: "0 < number_of_iterations (relaxation out)"
    using relaxation_loop_count[of "init_state 0" QSopt "V_matrix out" r]
    by (simp add: out_def plan_fields(4,5) init_state_invariant(3))
  have "length (vec_C (relaxation out)) = 0"
    by (simp add: out_def plan_length_C)
  then have c: "vec_C (relaxation out) = []" by simp
  have "new_number_of_variables out
      = length (filter (\<lambda>idx. vec_C (relaxation out) ! idx = Fin 0)
          [0..<length (vec_C (relaxation out))])"
    unfolding out_def by (simp only: plan_reduced(1) reduce_problem_spec(1))
  then have n: "new_number_of_variables out = 0" by (simp add: c)
  have "C_reduced out
      = map (\<lambda>v. to_int (QSopt (number_of_iterations (relaxation out) + 1)
          (build_problem (new_number_of_variables out) (V_reduced out) None) v))
        [0..<new_number_of_variables out]"
    unfolding out_def by (simp only: plan_reduced(3))
  then have cr: "C_reduced out = []" by (simp add: n)
  show ?thesis
    unfolding out_def[symmetric] using ret ps sh it n cr pa by simp
qed

theorem empty_region_run_completes_witness:
  "get_cells blocked_room 1 [(0, 0), (0, 0)] = Some []
   \<and> getExplorationPath pi example_solver inside_all end_points blocked_room [] 1 (0, 0) (0, 0) 1 pi
     [(0, 0), (0, 0)] [] (1, 0) 4 0 1 2 = Some (Inr blocked_out)
   \<and> cols (V_matrix blocked_out) = 0 \<and> C_reduced blocked_out = [] \<and> path blocked_out = []"
  using example_discretisation(5)
    empty_region_run_completes[OF example_discretisation(5), of pi example_solver inside_all
      end_points "[]" 1 "(0, 0)" "(0, 0)" pi "[]" "(1, 0)" 4 0 1 2]
  by (simp add: blocked_out_def)

end
